theory Spec2Isabelle
  imports Complex_Main
begin

section \<open>Node functions of gwsurrogate (gwsurrogate/new/nodeFunction.py)\<close>

text \<open>
  A shallow embedding of the node-function classes, the registry \<open>NODE_CLASSES\<close> and
  the holder class \<open>NodeFunction\<close>.

  Numbers: the input vector is a one-dimensional numpy array of doubles, so that the
  arithmetic of the source is numpy's, under numpy's default error state: an operation
  that divides by zero or has no valid result returns an infinity or a NaN, issues a
  \<open>RuntimeWarning\<close> through the warnings machinery and lets the code go on. A
  double is a real number, an infinity or a NaN; rounding, overflow and the sign of
  zero are not modelled (a zero divides like \<open>+0.0\<close>, which is what the denominators
  \<open>1.+q\<close> and \<open>(1.+q)**2\<close> are when they vanish).
\<close>

subsection \<open>Exceptions and the warnings machinery\<close>

record warning =
  w_text :: string
  w_category :: "string list"
  w_module :: string
  w_lineno :: nat

datatype exn =
    KeyError "string option"
  | IndexError
  | ValueError
  | TypeError
  | Exception string
  | External string
  | WarningAsError warning

datatype action = Act_ignore | Act_error | Act_always | Act_default | Act_module | Act_once

record wfilter =
  f_action :: action
  f_message :: string
  f_category :: string
  f_module :: string
  f_lineno :: nat

text \<open>
  The regular expressions of a warning filter are matched at the start of the text
  (\<open>re.match\<close>). The matcher covers the patterns whose only metacharacter is the dot,
  which is all the source uses; the message pattern is compiled with \<open>re.I\<close>.
\<close>

definition lower_char :: "char \<Rightarrow> char" where
  "lower_char c =
     (let n = (of_char c :: nat) in if 65 \<le> n \<and> n \<le> 90 then char_of (n + 32) else c)"

fun re_match :: "bool \<Rightarrow> string \<Rightarrow> string \<Rightarrow> bool" where
  "re_match ic [] t = True"
| "re_match ic (p # ps) [] = False"
| "re_match ic (p # ps) (c # cs) =
     ((if p = CHR ''.'' then c \<noteq> CHR 0x0A
       else if ic then lower_char p = lower_char c else p = c)
      \<and> re_match ic ps cs)"

text \<open>
  \<open>warnings.warn_explicit\<close>: the first filter that matches text, category (any
  category is a subclass of \<open>Warning\<close>; \<open>w_category\<close> lists the names of the
  warning's class and its bases), module and line decides; without a match the default
  action applies. The once-per-location registries are not modelled: a warning that is
  neither ignored nor turned into an error is shown.
\<close>

definition filter_matches :: "wfilter \<Rightarrow> warning \<Rightarrow> bool" where
  "filter_matches f w =
     ((f_message f = [] \<or> re_match True (f_message f) (w_text w))
      \<and> (f_category f = ''Warning'' \<or> f_category f \<in> set (w_category w))
      \<and> (f_module f = [] \<or> re_match False (f_module f) (w_module w))
      \<and> (f_lineno f = 0 \<or> f_lineno f = w_lineno w))"

fun action_for :: "wfilter list \<Rightarrow> warning \<Rightarrow> action" where
  "action_for [] w = Act_default"
| "action_for (f # fs) w = (if filter_matches f w then f_action f else action_for fs w)"

text \<open>\<open>warnings.filterwarnings\<close> without \<open>append\<close>: an equal entry is removed, the new
  one goes to the front.\<close>

definition filterwarnings :: "wfilter \<Rightarrow> wfilter list \<Rightarrow> wfilter list" where
  "filterwarnings item fs = item # remove1 item fs"

text \<open>
  A computation that may warn is described by a program over the effects that matter
  here: it returns a value, raises, issues a warning and goes on, or changes the warning
  filters and goes on. The arithmetic of the source is such a program, and so is the
  external fit evaluator (\<open>gwsurrogate.eval_pysur.evaluate_fit\<close>).
\<close>

datatype 'a fit_prog =
    Return 'a
  | Raise exn
  | Warn warning "'a fit_prog"
  | AddFilter wfilter "'a fit_prog"

type_synonym 'a run = "(exn + 'a) \<times> warning list \<times> wfilter list"

fun run_fit :: "'a fit_prog \<Rightarrow> wfilter list \<Rightarrow> 'a run" where
  "run_fit (Return a) fs = (Inr a, [], fs)"
| "run_fit (Raise e) fs = (Inl e, [], fs)"
| "run_fit (Warn w k) fs =
     (case action_for fs w of
        Act_ignore \<Rightarrow> run_fit k fs
      | Act_error \<Rightarrow> (Inl (WarningAsError w), [], fs)
      | _ \<Rightarrow> (case run_fit k fs of (r, ws, fs') \<Rightarrow> (r, w # ws, fs')))"
| "run_fit (AddFilter f k) fs = run_fit k (filterwarnings f fs)"

text \<open>\<open>with warnings.catch_warnings():\<close> works on a copy of the filter list and puts
  the saved list back on exit, also when the body raises.\<close>

definition catch_warnings :: "(wfilter list \<Rightarrow> 'a run) \<Rightarrow> wfilter list \<Rightarrow> 'a run" where
  "catch_warnings body fs = (case body fs of (r, ws, fs') \<Rightarrow> (r, ws, fs))"

definition predicted_variances_filter :: wfilter where
  "predicted_variances_filter =
     \<lparr>f_action = Act_ignore,
      f_message = ''Predicted variances smaller than 0. Setting those variances to 0.'',
      f_category = ''Warning'', f_module = [], f_lineno = 0\<rparr>"


text \<open>Sequencing: of two programs, and of a run with what follows it.\<close>

fun bind_prog :: "'a fit_prog \<Rightarrow> ('a \<Rightarrow> 'b fit_prog) \<Rightarrow> 'b fit_prog" where
  "bind_prog (Return a) f = f a"
| "bind_prog (Raise e) f = Raise e"
| "bind_prog (Warn w k) f = Warn w (bind_prog k f)"
| "bind_prog (AddFilter g k) f = AddFilter g (bind_prog k f)"

definition then_run :: "'a run \<Rightarrow> ('a \<Rightarrow> wfilter list \<Rightarrow> 'b run) \<Rightarrow> 'b run" where
  "then_run r k =
     (case r of
        (Inl e, ws, fs) \<Rightarrow> (Inl e, ws, fs)
      | (Inr a, ws, fs) \<Rightarrow> (case k a fs of (r', ws', fs') \<Rightarrow> (r', ws @ ws', fs')))"

definition pure_run :: "exn + 'a \<Rightarrow> wfilter list \<Rightarrow> 'a run" where
  "pure_run r fs = (r, [], fs)"

definition bind_exn :: "exn + 'a \<Rightarrow> ('a \<Rightarrow> exn + 'b) \<Rightarrow> exn + 'b" where
  "bind_exn m f = (case m of Inl e \<Rightarrow> Inl e | Inr a \<Rightarrow> f a)"

subsection \<open>numpy's arithmetic on doubles\<close>

datatype npfloat = Fin real | PInf | NInf | NaN

datatype fp_flag = DivideByZero | Invalid

fun is_negative :: "npfloat \<Rightarrow> bool" where
  "is_negative (Fin a) = (a < 0)"
| "is_negative NInf = True"
| "is_negative x = False"

fun is_zero :: "npfloat \<Rightarrow> bool" where
  "is_zero (Fin a) = (a = 0)"
| "is_zero x = False"

definition inf_of_sign :: "bool \<Rightarrow> npfloat" where
  "inf_of_sign negative = (if negative then NInf else PInf)"

fun np_negative :: "npfloat \<Rightarrow> npfloat" where
  "np_negative (Fin a) = Fin (- a)"
| "np_negative PInf = NInf"
| "np_negative NInf = PInf"
| "np_negative NaN = NaN"

text \<open>Each operation gives its value and the floating-point flag it raises, if any. A
  NaN operand gives a NaN quietly.\<close>

fun add_fp :: "npfloat \<Rightarrow> npfloat \<Rightarrow> npfloat \<times> fp_flag option" where
  "add_fp (Fin a) (Fin b) = (Fin (a + b), None)"
| "add_fp NaN b = (NaN, None)"
| "add_fp a NaN = (NaN, None)"
| "add_fp PInf NInf = (NaN, Some Invalid)"
| "add_fp NInf PInf = (NaN, Some Invalid)"
| "add_fp PInf b = (PInf, None)"
| "add_fp a PInf = (PInf, None)"
| "add_fp NInf b = (NInf, None)"
| "add_fp a NInf = (NInf, None)"

definition subtract_fp :: "npfloat \<Rightarrow> npfloat \<Rightarrow> npfloat \<times> fp_flag option" where
  "subtract_fp a b = add_fp a (np_negative b)"

fun multiply_fp :: "npfloat \<Rightarrow> npfloat \<Rightarrow> npfloat \<times> fp_flag option" where
  "multiply_fp (Fin a) (Fin b) = (Fin (a * b), None)"
| "multiply_fp NaN b = (NaN, None)"
| "multiply_fp a NaN = (NaN, None)"
| "multiply_fp a b =
     (if is_zero a \<or> is_zero b then (NaN, Some Invalid)
      else (inf_of_sign (is_negative a \<noteq> is_negative b), None))"

fun divide_fp :: "npfloat \<Rightarrow> npfloat \<Rightarrow> npfloat \<times> fp_flag option" where
  "divide_fp (Fin a) (Fin b) =
     (if b \<noteq> 0 then (Fin (a / b), None)
      else if a = 0 then (NaN, Some Invalid)
      else (inf_of_sign (a < 0), Some DivideByZero))"
| "divide_fp NaN b = (NaN, None)"
| "divide_fp a NaN = (NaN, None)"
| "divide_fp (Fin a) b = (Fin 0, None)"
| "divide_fp a (Fin b) = (inf_of_sign (is_negative a \<noteq> (b < 0)), None)"
| "divide_fp a b = (NaN, Some Invalid)"

fun power2_fp :: "npfloat \<Rightarrow> npfloat" where
  "power2_fp (Fin a) = Fin (a\<^sup>2)"
| "power2_fp NaN = NaN"
| "power2_fp x = PInf"

fun log_fp :: "npfloat \<Rightarrow> npfloat \<times> fp_flag option" where
  "log_fp (Fin q) =
     (if 0 < q then (Fin (ln q), None)
      else if q = 0 then (NInf, Some DivideByZero)
      else (NaN, Some Invalid))"
| "log_fp PInf = (PInf, None)"
| "log_fp NInf = (NaN, Some Invalid)"
| "log_fp NaN = (NaN, None)"

text \<open>
  The warning for a flag, worded as numpy 1.24 and later word it, with the name of the
  operation at the end. The warning is charged to the line of Python code that runs the
  operation: \<open>at_site\<close> enters module and line.
\<close>

definition np_warning :: "fp_flag \<Rightarrow> string \<Rightarrow> warning" where
  "np_warning flag operation =
     \<lparr>w_text = (case flag of DivideByZero \<Rightarrow> ''divide by zero'' | Invalid \<Rightarrow> ''invalid value'')
                 @ '' encountered in '' @ operation,
      w_category = [''RuntimeWarning'', ''Warning''], w_module = [], w_lineno = 0\<rparr>"

fun at_site :: "string \<Rightarrow> nat \<Rightarrow> 'a fit_prog \<Rightarrow> 'a fit_prog" where
  "at_site m n (Return a) = Return a"
| "at_site m n (Raise e) = Raise e"
| "at_site m n (Warn w k) = Warn (w\<lparr>w_module := m, w_lineno := n\<rparr>) (at_site m n k)"
| "at_site m n (AddFilter f k) = AddFilter f (at_site m n k)"

definition nodeFunction_py :: string where
  "nodeFunction_py = ''gwsurrogate.new.nodeFunction''"

text \<open>Operations on scalars (\<open>numpy.float64\<close>): the operands are evaluated from left to
  right, then the operation warns if it raises a flag.\<close>

definition np_scalar :: "string \<Rightarrow> npfloat \<times> fp_flag option \<Rightarrow> npfloat fit_prog" where
  "np_scalar operation r =
     (case snd r of
        None \<Rightarrow> Return (fst r)
      | Some flag \<Rightarrow> Warn (np_warning flag operation) (Return (fst r)))"

definition scalar_op2 ::
  "string \<Rightarrow> (npfloat \<Rightarrow> npfloat \<Rightarrow> npfloat \<times> fp_flag option)
     \<Rightarrow> npfloat fit_prog \<Rightarrow> npfloat fit_prog \<Rightarrow> npfloat fit_prog" where
  "scalar_op2 operation f pa pb =
     bind_prog pa (\<lambda>a. bind_prog pb (\<lambda>b. np_scalar operation (f a b)))"

definition p_add :: "npfloat fit_prog \<Rightarrow> npfloat fit_prog \<Rightarrow> npfloat fit_prog" where
  "p_add = scalar_op2 ''scalar add'' add_fp"

definition p_subtract :: "npfloat fit_prog \<Rightarrow> npfloat fit_prog \<Rightarrow> npfloat fit_prog" where
  "p_subtract = scalar_op2 ''scalar subtract'' subtract_fp"

definition p_multiply :: "npfloat fit_prog \<Rightarrow> npfloat fit_prog \<Rightarrow> npfloat fit_prog" where
  "p_multiply = scalar_op2 ''scalar multiply'' multiply_fp"

definition p_divide :: "npfloat fit_prog \<Rightarrow> npfloat fit_prog \<Rightarrow> npfloat fit_prog" where
  "p_divide = scalar_op2 ''scalar divide'' divide_fp"

definition p_power2 :: "npfloat fit_prog \<Rightarrow> npfloat fit_prog" where
  "p_power2 pa = bind_prog pa (\<lambda>a. Return (power2_fp a))"

definition p_log :: "npfloat fit_prog \<Rightarrow> npfloat fit_prog" where
  "p_log pa = bind_prog pa (\<lambda>a. np_scalar ''log'' (log_fp a))"

text \<open>Operations on arrays work elementwise; after the loop numpy warns once for each
  flag that some element raised, division by zero first.\<close>

definition array_op :: "string \<Rightarrow> (npfloat \<times> fp_flag option) list \<Rightarrow> npfloat list fit_prog" where
  "array_op operation rs =
     (let values = Return (map fst rs);
          invalid = (if Some Invalid \<in> set (map snd rs)
                     then Warn (np_warning Invalid operation) values else values)
      in if Some DivideByZero \<in> set (map snd rs)
         then Warn (np_warning DivideByZero operation) invalid else invalid)"

text \<open>\<open>numpy.mean\<close> of a one-dimensional array: the elements are added up from the
  first on and the sum is divided by their number; numpy warns of an empty array before
  it divides.\<close>

fun add_reduce :: "npfloat \<Rightarrow> npfloat list \<Rightarrow> npfloat \<times> bool" where
  "add_reduce acc [] = (acc, False)"
| "add_reduce acc (v # vs) =
     (case add_reduce (fst (add_fp acc v)) vs of
        (s, flagged) \<Rightarrow> (s, flagged \<or> snd (add_fp acc v) = Some Invalid))"

definition np_mean :: "npfloat list \<Rightarrow> npfloat fit_prog" where
  "np_mean x =
     at_site ''numpy'' 0
       (case x of
          [] \<Rightarrow>
            Warn \<lparr>w_text = ''Mean of empty slice.'', w_category = [''RuntimeWarning'', ''Warning''],
                  w_module = [], w_lineno = 0\<rparr>
              (np_scalar ''scalar divide'' (divide_fp (Fin 0) (Fin 0)))
        | v # vs \<Rightarrow>
            (case add_reduce v vs of
               (s, flagged) \<Rightarrow>
                 (if flagged
                  then Warn (np_warning Invalid ''reduce'')
                         (np_scalar ''scalar divide'' (divide_fp s (Fin (real (length x)))))
                  else np_scalar ''scalar divide'' (divide_fp s (Fin (real (length x)))))))"

subsection \<open>The fit classes\<close>

type_synonym evaluator = "npfloat list \<Rightarrow> npfloat fit_prog"

text \<open>A closed-form function of the external table \<open>parametric_funcs.function_dict\<close>
  takes the coefficients and a number; being external code, it is a program.\<close>

type_synonym parametric_func = "real list option \<Rightarrow> npfloat \<Rightarrow> npfloat fit_prog"

text \<open>Subscripting a dictionary with string keys; the key at hand may be \<open>None\<close>.\<close>

definition dict_getitem :: "(string \<rightharpoonup> 'v) \<Rightarrow> string option \<Rightarrow> exn + 'v" where
  "dict_getitem d k =
     (case k of
        None \<Rightarrow> Inl (KeyError None)
      | Some s \<Rightarrow> (case d s of None \<Rightarrow> Inl (KeyError (Some s)) | Some v \<Rightarrow> Inr v))"

text \<open>\<open>DummyNodeFunction.__call__\<close>\<close>

definition DummyNodeFunction_call ::
  "npfloat option \<Rightarrow> npfloat list \<Rightarrow> wfilter list \<Rightarrow> npfloat run" where
  "DummyNodeFunction_call val x fs =
     (case val of None \<Rightarrow> run_fit (np_mean x) fs | Some v \<Rightarrow> pure_run (Inr v) fs)"

text \<open>\<open>Polyfit1D.__call__\<close>: the table lookup comes first, then \<open>x[0]\<close>, then the
  call of the closed-form function. \<open>function_dict\<close> is a parameter.\<close>

definition Polyfit1D_call ::
  "(string \<rightharpoonup> parametric_func) \<Rightarrow> string option \<Rightarrow> real list option \<Rightarrow> npfloat list
     \<Rightarrow> wfilter list \<Rightarrow> npfloat run" where
  "Polyfit1D_call function_dict function_name coefs x fs =
     (case dict_getitem function_dict function_name of
        Inl e \<Rightarrow> pure_run (Inl e) fs
      | Inr func \<Rightarrow>
          (case x of
             [] \<Rightarrow> pure_run (Inl IndexError) fs
           | x0 # _ \<Rightarrow> run_fit (func coefs x0) fs))"

text \<open>\<open>pySurrogateFit.__call__\<close>\<close>

definition pySurrogateFit_call ::
  "evaluator \<Rightarrow> npfloat list \<Rightarrow> wfilter list \<Rightarrow> npfloat run" where
  "pySurrogateFit_call fitFunc x = run_fit (fitFunc x)"

text \<open>\<open>NRHybSur3dq8Fit.__call__\<close>, lines 111 to 118: unpacking and the mapped vector,
  line by line.\<close>

fun NRHybSur3dq8Fit_mapped_x :: "npfloat list \<Rightarrow> npfloat list fit_prog" where
  "NRHybSur3dq8Fit_mapped_x [q, chi1z, chi2z] =
     bind_prog (at_site nodeFunction_py 113
       (p_divide (Return q) (p_power2 (p_add (Return (Fin 1)) (Return q))))) (\<lambda>eta.
     bind_prog (at_site nodeFunction_py 114
       (p_divide (p_add (p_multiply (Return q) (Return chi1z)) (Return chi2z))
                 (p_add (Return (Fin 1)) (Return q)))) (\<lambda>chi_wtAvg.
     bind_prog (at_site nodeFunction_py 115
       (p_divide
          (p_subtract (Return chi_wtAvg)
             (p_multiply (p_divide (p_multiply (Return (Fin 38)) (Return eta)) (Return (Fin 113)))
                         (p_add (Return chi1z) (Return chi2z))))
          (p_subtract (Return (Fin 1))
             (p_divide (p_multiply (Return (Fin 76)) (Return eta)) (Return (Fin 113)))))) (\<lambda>chiHat.
     bind_prog (at_site nodeFunction_py 116
       (p_divide (p_subtract (Return chi1z) (Return chi2z)) (Return (Fin 2)))) (\<lambda>chi_a.
     bind_prog (at_site nodeFunction_py 118 (p_log (Return q))) (\<lambda>log_q.
     Return [log_q, chiHat, chi_a])))))"
| "NRHybSur3dq8Fit_mapped_x x = Raise ValueError"

text \<open>Lines 120 to 129: the delegated call inside the \<open>catch_warnings\<close> block.\<close>

definition NRHybSur3dq8Fit_call ::
  "evaluator \<Rightarrow> npfloat list \<Rightarrow> wfilter list \<Rightarrow> npfloat run" where
  "NRHybSur3dq8Fit_call fitFunc x fs =
     then_run (run_fit (NRHybSur3dq8Fit_mapped_x x) fs) (\<lambda>mapped_x.
       catch_warnings
         (\<lambda>fs'. pySurrogateFit_call fitFunc mapped_x
                  (filterwarnings predicted_variances_filter fs')))"

text \<open>\<open>NRHybSur2dq15Fit.__call__\<close>, lines 141 to 148 and 150 to 159\<close>

fun NRHybSur2dq15Fit_mapped_x :: "npfloat list \<Rightarrow> npfloat list fit_prog" where
  "NRHybSur2dq15Fit_mapped_x [q, chi1z] =
     (let chi2z = Fin 0 in
     bind_prog (at_site nodeFunction_py 144
       (p_divide (Return q) (p_power2 (p_add (Return (Fin 1)) (Return q))))) (\<lambda>eta.
     bind_prog (at_site nodeFunction_py 145
       (p_divide (p_add (p_multiply (Return q) (Return chi1z)) (Return chi2z))
                 (p_add (Return (Fin 1)) (Return q)))) (\<lambda>chi_wtAvg.
     bind_prog (at_site nodeFunction_py 146
       (p_divide
          (p_subtract (Return chi_wtAvg)
             (p_multiply (p_divide (p_multiply (Return (Fin 38)) (Return eta)) (Return (Fin 113)))
                         (p_add (Return chi1z) (Return chi2z))))
          (p_subtract (Return (Fin 1))
             (p_divide (p_multiply (Return (Fin 76)) (Return eta)) (Return (Fin 113)))))) (\<lambda>chiHat.
     bind_prog (at_site nodeFunction_py 148 (p_log (Return q))) (\<lambda>log_q.
     Return [log_q, chiHat])))))"
| "NRHybSur2dq15Fit_mapped_x x = Raise ValueError"

definition NRHybSur2dq15Fit_call ::
  "evaluator \<Rightarrow> npfloat list \<Rightarrow> wfilter list \<Rightarrow> npfloat run" where
  "NRHybSur2dq15Fit_call fitFunc x fs =
     then_run (run_fit (NRHybSur2dq15Fit_mapped_x x) fs) (\<lambda>mapped_x.
       catch_warnings
         (\<lambda>fs'. pySurrogateFit_call fitFunc mapped_x
                  (filterwarnings predicted_variances_filter fs')))"

text \<open>
  \<open>MappedPolyFit1D_q10_q_to_nu.__call__\<close>.

  Modelled from the spec: \<open>gwtools.q_to_nu\<close> is not part of the sources; the spec gives
  the symmetric mass ratio as \<open>q/(1+q)^2\<close>. It acts on the whole array, elementwise; module
  and line of its code are not known and are entered as \<open>gwtools\<close> and 0.
\<close>

definition q_to_nu :: "npfloat list \<Rightarrow> npfloat list fit_prog" where
  "q_to_nu q =
     at_site ''gwtools'' 0
       (bind_prog (array_op ''add'' (map (add_fp (Fin 1)) q)) (\<lambda>s.
        array_op ''divide'' (map (\<lambda>(a, b). divide_fp a b) (zip q (map power2_fp s)))))"

definition MappedPolyFit1D_q10_q_to_nu_mapped_x :: "npfloat list \<Rightarrow> npfloat list fit_prog" where
  "MappedPolyFit1D_q10_q_to_nu_mapped_x x =
     bind_prog (q_to_nu x) (\<lambda>nu.
       at_site nodeFunction_py 169 (array_op ''multiply'' (map (multiply_fp (Fin 4)) nu)))"

definition MappedPolyFit1D_q10_q_to_nu_call ::
  "(string \<rightharpoonup> parametric_func) \<Rightarrow> string option \<Rightarrow> real list option \<Rightarrow> npfloat list
     \<Rightarrow> wfilter list \<Rightarrow> npfloat run" where
  "MappedPolyFit1D_q10_q_to_nu_call function_dict function_name coefs x fs =
     then_run (run_fit (MappedPolyFit1D_q10_q_to_nu_mapped_x x) fs)
       (Polyfit1D_call function_dict function_name coefs)"

subsection \<open>Instances, constructors and the registry\<close>

datatype py_class =
    DummyNodeFunction
  | Polyfit1D
  | pySurrogateFit
  | NRHybSur3dq8Fit
  | NRHybSur2dq15Fit
  | MappedPolyFit1D_q10_q_to_nu

fun class_name :: "py_class \<Rightarrow> string" where
  "class_name DummyNodeFunction = ''DummyNodeFunction''"
| "class_name Polyfit1D = ''Polyfit1D''"
| "class_name pySurrogateFit = ''pySurrogateFit''"
| "class_name NRHybSur3dq8Fit = ''NRHybSur3dq8Fit''"
| "class_name NRHybSur2dq15Fit = ''NRHybSur2dq15Fit''"
| "class_name MappedPolyFit1D_q10_q_to_nu = ''MappedPolyFit1D_q10_q_to_nu''"

text \<open>
  A live object: an instance of one of the classes of the module, with the attributes its
  \<open>__init__\<close> sets, or an instance of a class defined elsewhere, of which the model
  keeps the class name and what calling it does. \<open>'fd\<close> is the type of the opaque fit
  data.
\<close>

datatype 'fd node_obj =
    DummyNodeFunction_obj "npfloat option"
  | Polyfit1D_obj "string option" "real list option"
  | pySurrogateFit_obj "string option" "'fd option" evaluator
  | NRHybSur3dq8Fit_obj "string option" "'fd option" evaluator
  | NRHybSur2dq15Fit_obj "string option" "'fd option" evaluator
  | MappedPolyFit1D_q10_q_to_nu_obj "string option" "real list option"
  | Foreign_obj string evaluator

fun class_of :: "'fd node_obj \<Rightarrow> py_class option" where
  "class_of (DummyNodeFunction_obj v) = Some DummyNodeFunction"
| "class_of (Polyfit1D_obj n c) = Some Polyfit1D"
| "class_of (pySurrogateFit_obj n d f) = Some pySurrogateFit"
| "class_of (NRHybSur3dq8Fit_obj n d f) = Some NRHybSur3dq8Fit"
| "class_of (NRHybSur2dq15Fit_obj n d f) = Some NRHybSur2dq15Fit"
| "class_of (MappedPolyFit1D_q10_q_to_nu_obj n c) = Some MappedPolyFit1D_q10_q_to_nu"
| "class_of (Foreign_obj n f) = None"

text \<open>\<open>node_function.__class__.__name__\<close>\<close>

fun obj_class_name :: "'fd node_obj \<Rightarrow> string" where
  "obj_class_name (Foreign_obj n f) = n"
| "obj_class_name ob = (case class_of ob of Some c \<Rightarrow> class_name c | None \<Rightarrow> [])"

text \<open>The single evaluation entry point of an object.\<close>

fun obj_call ::
  "(string \<rightharpoonup> parametric_func) \<Rightarrow> 'fd node_obj \<Rightarrow> npfloat list \<Rightarrow> wfilter list \<Rightarrow> npfloat run" where
  "obj_call fd (DummyNodeFunction_obj v) x = DummyNodeFunction_call v x"
| "obj_call fd (Polyfit1D_obj n c) x = Polyfit1D_call fd n c x"
| "obj_call fd (pySurrogateFit_obj n d f) x = pySurrogateFit_call f x"
| "obj_call fd (NRHybSur3dq8Fit_obj n d f) x = NRHybSur3dq8Fit_call f x"
| "obj_call fd (NRHybSur2dq15Fit_obj n d f) x = NRHybSur2dq15Fit_call f x"
| "obj_call fd (MappedPolyFit1D_q10_q_to_nu_obj n c) x =
     MappedPolyFit1D_q10_q_to_nu_call fd n c x"
| "obj_call fd (Foreign_obj n f) x = run_fit (f x)"

text \<open>
  The arguments of a constructor call. Every \<open>__init__\<close> of the module has defaults of
  \<open>None\<close> for all its parameters; the parameters of one class are not those of another.
\<close>

datatype 'fd init_args =
    NoArgs
  | DummyArgs "npfloat option"
  | PolyArgs "string option" "real list option"
  | FitArgs "string option" "'fd option"

text \<open>\<open>pySurrogateFit.__init__\<close> stores name and fit data and calls
  \<open>h5_prepare_subs\<close>, which sets \<open>fitFunc\<close> from the external
  \<open>evaluate_fit.getFitEvaluator\<close>, a parameter here.\<close>

definition pySurrogateFit_init ::
  "('fd option \<Rightarrow> exn + evaluator) \<Rightarrow> (string option \<Rightarrow> 'fd option \<Rightarrow> evaluator \<Rightarrow> 'fd node_obj)
     \<Rightarrow> string option \<Rightarrow> 'fd option \<Rightarrow> exn + 'fd node_obj" where
  "pySurrogateFit_init getFitEvaluator mk nm fit_data =
     bind_exn (getFitEvaluator fit_data) (\<lambda>fitFunc. Inr (mk nm fit_data fitFunc))"

fun construct ::
  "('fd option \<Rightarrow> exn + evaluator) \<Rightarrow> py_class \<Rightarrow> 'fd init_args \<Rightarrow> exn + 'fd node_obj" where
  "construct g DummyNodeFunction NoArgs = Inr (DummyNodeFunction_obj None)"
| "construct g DummyNodeFunction (DummyArgs v) = Inr (DummyNodeFunction_obj v)"
| "construct g Polyfit1D NoArgs = Inr (Polyfit1D_obj None None)"
| "construct g Polyfit1D (PolyArgs n c) = Inr (Polyfit1D_obj n c)"
| "construct g MappedPolyFit1D_q10_q_to_nu NoArgs =
     Inr (MappedPolyFit1D_q10_q_to_nu_obj None None)"
| "construct g MappedPolyFit1D_q10_q_to_nu (PolyArgs n c) =
     Inr (MappedPolyFit1D_q10_q_to_nu_obj n c)"
| "construct g pySurrogateFit NoArgs = pySurrogateFit_init g pySurrogateFit_obj None None"
| "construct g pySurrogateFit (FitArgs n d) = pySurrogateFit_init g pySurrogateFit_obj n d"
| "construct g NRHybSur3dq8Fit NoArgs = pySurrogateFit_init g NRHybSur3dq8Fit_obj None None"
| "construct g NRHybSur3dq8Fit (FitArgs n d) = pySurrogateFit_init g NRHybSur3dq8Fit_obj n d"
| "construct g NRHybSur2dq15Fit NoArgs = pySurrogateFit_init g NRHybSur2dq15Fit_obj None None"
| "construct g NRHybSur2dq15Fit (FitArgs n d) = pySurrogateFit_init g NRHybSur2dq15Fit_obj n d"
| "construct g c args = Inl TypeError"

definition NODE_CLASSES :: "(string \<times> py_class) list" where
  "NODE_CLASSES =
     [(''Dummy'', DummyNodeFunction),
      (''Polyfit1D'', Polyfit1D),
      (''SpEC_q10_non_spinning'', MappedPolyFit1D_q10_q_to_nu),
      (''NRHybSur3dq8Fit'', NRHybSur3dq8Fit),
      (''NRHybSur2dq15Fit'', NRHybSur2dq15Fit)]"

subsection \<open>The holder\<close>

record 'fd NodeFunction =
  name :: string
  node_function :: "'fd node_obj option"
  node_class :: "string option"

text \<open>\<open>NodeFunction.__init__\<close>: the loop runs over all items and keeps the key of the
  last class whose name is the name of the object's class.\<close>

definition reverse_lookup :: "'fd node_obj \<Rightarrow> string option" where
  "reverse_lookup ob =
     fold (\<lambda>(k, v) acc. if obj_class_name ob = class_name v then Some k else acc)
       NODE_CLASSES None"

definition NodeFunction_init :: "string \<Rightarrow> 'fd node_obj option \<Rightarrow> exn + 'fd NodeFunction" where
  "NodeFunction_init nm nf =
     (case nf of
        None \<Rightarrow> Inr \<lparr>name = nm, node_function = None, node_class = None\<rparr>
      | Some ob \<Rightarrow>
          (case reverse_lookup ob of
             None \<Rightarrow> Inl (Exception ''node_function must be in NODE_CLASSES!'')
           | Some k \<Rightarrow> Inr \<lparr>name = nm, node_function = Some ob, node_class = Some k\<rparr>))"

text \<open>\<open>NodeFunction.__call__\<close>: calling \<open>None\<close> is a \<open>TypeError\<close>.\<close>

definition NodeFunction_call ::
  "(string \<rightharpoonup> parametric_func) \<Rightarrow> 'fd NodeFunction \<Rightarrow> npfloat list \<Rightarrow> wfilter list \<Rightarrow> npfloat run" where
  "NodeFunction_call fd self x fs =
     (case node_function self of
        None \<Rightarrow> pure_run (Inl TypeError) fs
      | Some ob \<Rightarrow> obj_call fd ob x fs)"

text \<open>\<open>NodeFunction.h5_prepare_subs\<close>: \<open>NODE_CLASSES[self.node_class]()\<close>\<close>

definition h5_prepare_subs ::
  "('fd option \<Rightarrow> exn + evaluator) \<Rightarrow> 'fd NodeFunction \<Rightarrow> exn + 'fd NodeFunction" where
  "h5_prepare_subs g self =
     bind_exn (dict_getitem (map_of NODE_CLASSES) (node_class self)) (\<lambda>cls.
     bind_exn (construct g cls NoArgs) (\<lambda>ob.
     Inr (self\<lparr>node_function := Some ob\<rparr>)))"

subsection \<open>Notions used to state the properties\<close>

text \<open>Python's exception hierarchy: \<open>KeyError\<close> and \<open>IndexError\<close> are the subclasses
  of \<open>LookupError\<close>.\<close>

fun is_LookupError :: "exn \<Rightarrow> bool" where
  "is_LookupError (KeyError k) = True"
| "is_LookupError IndexError = True"
| "is_LookupError e = False"

text \<open>
  Reconstruction as the specification words it, to be compared with
  \<open>h5_prepare_subs\<close>: the constructor registered under the class key is invoked with the
  payload.
\<close>

definition reconstruct_with_payload ::
  "('fd option \<Rightarrow> exn + evaluator) \<Rightarrow> 'fd NodeFunction \<Rightarrow> 'fd init_args
     \<Rightarrow> exn + 'fd NodeFunction" where
  "reconstruct_with_payload g self payload =
     bind_exn (dict_getitem (map_of NODE_CLASSES) (node_class self)) (\<lambda>cls.
     bind_exn (construct g cls payload) (\<lambda>ob.
     Inr (self\<lparr>node_function := Some ob\<rparr>)))"






text \<open>What a program returns, whatever it warns of on the way.\<close>

fun returned :: "'a fit_prog \<Rightarrow> exn + 'a" where
  "returned (Return a) = Inr a"
| "returned (Raise e) = Inl e"
| "returned (Warn w k) = returned k"
| "returned (AddFilter f k) = returned k"



subsection \<open>Concrete collaborators for the examples\<close>

text \<open>A table of closed-form functions with one entry, the evaluation of a polynomial
  with the highest coefficient first, at real numbers.\<close>

definition polyval :: "real list \<Rightarrow> real \<Rightarrow> real" where
  "polyval cs x = foldl (\<lambda>acc c. acc * x + c) 0 cs"

definition polyval_1d :: parametric_func where
  "polyval_1d coefs x =
     (case coefs of
        None \<Rightarrow> Raise TypeError
      | Some cs \<Rightarrow> (case x of Fin v \<Rightarrow> Return (Fin (polyval cs v)) | _ \<Rightarrow> Return NaN))"

definition example_function_dict :: "string \<rightharpoonup> parametric_func" where
  "example_function_dict = [''polyval_1d'' \<mapsto> polyval_1d]"

text \<open>An evaluator that warns about the variances, warns about something else and
  returns the second of its arguments; one that changes the filters; a factory that
  returns the first whatever the fit data.\<close>

definition predicted_variances_warning :: warning where
  "predicted_variances_warning =
     \<lparr>w_text = ''Predicted variances smaller than 0. Setting those variances to 0.'',
      w_category = [''UserWarning'', ''Warning''], w_module = ''sklearn'', w_lineno = 1\<rparr>"

definition other_warning :: warning where
  "other_warning =
     \<lparr>w_text = ''overflow encountered'', w_category = [''RuntimeWarning'', ''Warning''],
      w_module = ''numpy'', w_lineno = 2\<rparr>"

definition second_argument :: "npfloat list \<Rightarrow> npfloat" where
  "second_argument x = (case x of a # b # rest \<Rightarrow> b | _ \<Rightarrow> NaN)"

definition warning_evaluator :: evaluator where
  "warning_evaluator x =
     Warn predicted_variances_warning (Warn other_warning (Return (second_argument x)))"



definition example_getFitEvaluator :: "unit option \<Rightarrow> exn + evaluator" where
  "example_getFitEvaluator fit_data = Inr warning_evaluator"

section \<open>Properties\<close>

subsection \<open>Auxiliary facts\<close>

lemma bind_exn_Inr: "bind_exn (Inr a) f = f a"
  by (simp add: bind_exn_def)

lemma bind_exn_Inl: "bind_exn (Inl e) f = Inl e"
  by (simp add: bind_exn_def)

lemma np_scalar_quiet: "np_scalar operation (v, None) = Return v"
  by (simp add: np_scalar_def)

lemma scalar_op2_Return:
  "scalar_op2 operation f (Return a) (Return b) = np_scalar operation (f a b)"
  by (simp add: scalar_op2_def)

lemma p_add_Fin: "p_add (Return (Fin a)) (Return (Fin b)) = Return (Fin (a + b))"
  by (simp add: p_add_def scalar_op2_Return np_scalar_quiet)

lemma p_subtract_Fin: "p_subtract (Return (Fin a)) (Return (Fin b)) = Return (Fin (a - b))"
  by (simp add: p_subtract_def subtract_fp_def scalar_op2_Return np_scalar_quiet)

lemma p_multiply_Fin: "p_multiply (Return (Fin a)) (Return (Fin b)) = Return (Fin (a * b))"
  by (simp add: p_multiply_def scalar_op2_Return np_scalar_quiet)

lemma p_divide_Fin:
  "b \<noteq> 0 \<Longrightarrow> p_divide (Return (Fin a)) (Return (Fin b)) = Return (Fin (a / b))"
  by (simp add: p_divide_def scalar_op2_Return np_scalar_quiet)

lemma p_power2_Fin: "p_power2 (Return (Fin a)) = Return (Fin (a\<^sup>2))"
  by (simp add: p_power2_def)

lemma p_log_Fin: "0 < q \<Longrightarrow> p_log (Return (Fin q)) = Return (Fin (ln q))"
  by (simp add: p_log_def np_scalar_quiet)

text \<open>The symmetric mass ratio never exceeds a quarter, so the denominator of
  \<open>chiHat\<close> cannot vanish.\<close>

lemma eta_bound: "q / (1 + q)\<^sup>2 \<le> 1 / (4::real)"
proof (cases "1 + q = 0")
  case True
  then show ?thesis by simp
next
  case False
  then have pos: "0 < (1 + q)\<^sup>2" by simp
  have "0 \<le> (1 - q)\<^sup>2" by simp
  then have "4 * q \<le> (1 + q)\<^sup>2" by (simp add: power2_eq_square algebra_simps)
  then have "q \<le> (1 / 4) * (1 + q)\<^sup>2" by simp
  then show ?thesis using pos by (simp only: pos_divide_le_eq)
qed

lemma chiHat_denominator: "1 - 76 * (q / (1 + q)\<^sup>2) / 113 \<noteq> (0::real)"
proof -
  define e where "e = q / (1 + q)\<^sup>2"
  have "e \<le> 1 / 4" unfolding e_def by (rule eta_bound)
  then have "1 - 76 * e / 113 \<noteq> 0" by linarith
  then show ?thesis unfolding e_def .
qed

lemma mapped_x_3dq8_positive:
  "0 < q \<Longrightarrow> NRHybSur3dq8Fit_mapped_x [Fin q, Fin chi1z, Fin chi2z] =
    Return [Fin (ln q),
         Fin (((q * chi1z + chi2z) / (1 + q) - (38 * (q / (1 + q)\<^sup>2) / 113) * (chi1z + chi2z))
           / (1 - 76 * (q / (1 + q)\<^sup>2) / 113)),
         Fin ((chi1z - chi2z) / 2)]"
proof -
  assume q: "0 < q"
  then have d1: "(1 + q)\<^sup>2 \<noteq> 0" and d2: "1 + q \<noteq> 0" by simp_all
  have d3: "1 - 76 * (q / (1 + q)\<^sup>2) / 113 \<noteq> 0" by (rule chiHat_denominator)
  have n113: "(113::real) \<noteq> 0" and n2: "(2::real) \<noteq> 0" by simp_all
  show ?thesis
    by (simp only: NRHybSur3dq8Fit_mapped_x.simps p_add_Fin p_subtract_Fin p_multiply_Fin
          p_power2_Fin p_divide_Fin [OF d1] p_divide_Fin [OF d2] p_divide_Fin [OF d3]
          p_divide_Fin [OF n113] p_divide_Fin [OF n2] p_log_Fin [OF q]
          at_site.simps bind_prog.simps)
qed

lemma returned_bind_prog:
  "returned (bind_prog p f) = bind_exn (returned p) (\<lambda>a. returned (f a))"
  by (induction p) (simp_all add: bind_exn_def)

lemma returned_at_site: "returned (at_site m n p) = returned p"
  by (induction p) simp_all

lemma returned_np_scalar: "returned (np_scalar operation r) = Inr (fst r)"
  by (simp add: np_scalar_def split: option.splits)

lemma returned_scalar_op2:
  "returned (scalar_op2 operation f pa pb) =
     bind_exn (returned pa) (\<lambda>a. bind_exn (returned pb) (\<lambda>b. Inr (fst (f a b))))"
  by (simp add: scalar_op2_def returned_bind_prog returned_np_scalar)

lemmas returned_simps = returned_bind_prog returned_at_site returned_np_scalar
  returned_scalar_op2 p_add_def p_subtract_def p_multiply_def p_divide_def p_power2_def
  p_log_def bind_exn_Inr bind_exn_Inl

lemma at_site_bind_prog:
  "at_site m n (bind_prog p f) = bind_prog (at_site m n p) (\<lambda>a. at_site m n (f a))"
  by (induction p) simp_all

lemma at_site_at_site: "at_site m n (at_site m' n' p) = at_site m n p"
  by (induction p) simp_all

lemma bind_prog_assoc:
  "bind_prog (bind_prog p f) g = bind_prog p (\<lambda>a. bind_prog (f a) g)"
  by (induction p) simp_all

lemma chi_a_quiet:
  "p_divide (p_subtract (Return c) (Return (Fin 0))) (Return (Fin 2))
     = Return (fst (divide_fp (fst (subtract_fp c (Fin 0))) (Fin 2)))"
  by (cases c)
     (simp_all add: p_divide_def p_subtract_def scalar_op2_def np_scalar_def subtract_fp_def
        inf_of_sign_def)



subsection \<open>The parameter maps\<close>

text \<open>
  Claim C1. For a mass ratio \<open>q > 0\<close> and any real spins, \<open>NRHybSur3dq8Fit.__call__\<close>
  on \<open>[q, chi1z, chi2z]\<close> computes, without a warning, the mapped vector
  \<open>[ln q, chiHat, chi_a]\<close> with \<open>eta = q/(1+q)^2\<close>,
  \<open>chi_wtAvg = (q chi1z + chi2z)/(1+q)\<close>,
  \<open>chiHat = (chi_wtAvg - (38 eta/113)(chi1z + chi2z))/(1 - 76 eta/113)\<close> and
  \<open>chi_a = (chi1z - chi2z)/2\<close>, and what the call does is to run the fit evaluator on
  exactly this vector, under the filters of the \<open>catch_warnings\<close> block, and to put
  the ambient filters back, whatever the evaluator is.
  No denominator vanishes for \<open>q > 0\<close>.
\<close>

theorem NRHybSur3dq8Fit_passes_mapped_vector:
  "0 < q \<Longrightarrow>
     (let eta = q / (1 + q)\<^sup>2;
          chi_wtAvg = (q * chi1z + chi2z) / (1 + q);
          chiHat = (chi_wtAvg - (38 * eta / 113) * (chi1z + chi2z)) / (1 - 76 * eta / 113);
          chi_a = (chi1z - chi2z) / 2
      in NRHybSur3dq8Fit_mapped_x [Fin q, Fin chi1z, Fin chi2z]
           = Return [Fin (ln q), Fin chiHat, Fin chi_a]
       \<and> NRHybSur3dq8Fit_call fitFunc [Fin q, Fin chi1z, Fin chi2z] fs =
           (case run_fit (fitFunc [Fin (ln q), Fin chiHat, Fin chi_a])
                   (filterwarnings predicted_variances_filter fs) of
              (result, shown, fs') \<Rightarrow> (result, shown, fs)))"
proof -
  assume q: "0 < q"
  note m = mapped_x_3dq8_positive [OF q, of chi1z chi2z]
  have t: "then_run (run_fit (Return a) fs) k = k a fs"
    for a :: "npfloat list" and k :: "npfloat list \<Rightarrow> wfilter list \<Rightarrow> npfloat run"
    by (simp add: then_run_def split: prod.splits)
  show ?thesis
    unfolding Let_def NRHybSur3dq8Fit_call_def m t pySurrogateFit_call_def catch_warnings_def
    by simp
qed

text \<open>Equal masses and equal spins of one half: the evaluator receives
  \<open>[0, 1/2, 0]\<close>; an evaluator that returns its second argument returns one half.\<close>

theorem NRHybSur3dq8Fit_passes_mapped_vector_witness:
  "0 < (1::real) \<and>
   NRHybSur3dq8Fit_mapped_x [Fin 1, Fin (1/2), Fin (1/2)] = Return [Fin 0, Fin (1/2), Fin 0] \<and>
   NRHybSur3dq8Fit_call (\<lambda>x. Return (second_argument x)) [Fin 1, Fin (1/2), Fin (1/2)] []
     = (Inr (Fin (1/2)), [], [])"
  using NRHybSur3dq8Fit_passes_mapped_vector [of 1 "1/2" "1/2" "\<lambda>x. Return (second_argument x)" "[]"]
  by (simp add: Let_def catch_warnings_def second_argument_def power2_eq_square)

text \<open>
  Claim C8. On every input \<open>[q, chi1z]\<close> the mapped vector that
  \<open>NRHybSur2dq15Fit.__call__\<close> computes is the mapped vector that
  \<open>NRHybSur3dq8Fit.__call__\<close> computes on \<open>[q, chi1z, 0]\<close>, cut to its first two
  components \<open>[ln q, chiHat]\<close>, infinities and NaNs included; the two computations
  also issue the same numpy warnings, which differ in nothing but the line of the source
  they are charged to.
\<close>

theorem NRHybSur2dq15Fit_is_NRHybSur3dq8Fit_at_zero_spin:
  "returned (NRHybSur2dq15Fit_mapped_x [q, chi1z])
     = map_sum id (take 2) (returned (NRHybSur3dq8Fit_mapped_x [q, chi1z, Fin 0]))
   \<and> at_site [] 0 (NRHybSur2dq15Fit_mapped_x [q, chi1z])
     = at_site [] 0 (bind_prog (NRHybSur3dq8Fit_mapped_x [q, chi1z, Fin 0])
                       (\<lambda>mapped_x. Return (take 2 mapped_x)))"
proof
  show "returned (NRHybSur2dq15Fit_mapped_x [q, chi1z])
     = map_sum id (take 2) (returned (NRHybSur3dq8Fit_mapped_x [q, chi1z, Fin 0]))"
    by (simp add: returned_simps Let_def)
  show "at_site [] 0 (NRHybSur2dq15Fit_mapped_x [q, chi1z])
     = at_site [] 0 (bind_prog (NRHybSur3dq8Fit_mapped_x [q, chi1z, Fin 0])
                       (\<lambda>mapped_x. Return (take 2 mapped_x)))"
    by (simp add: Let_def at_site_bind_prog at_site_at_site chi_a_quiet bind_prog_assoc)
qed

subsection \<open>The registry and the holder\<close>

lemma reverse_lookup_registered:
  "reverse_lookup ob = (if obj_class_name ob = ''DummyNodeFunction'' then Some ''Dummy''
     else if obj_class_name ob = ''Polyfit1D'' then Some ''Polyfit1D''
     else if obj_class_name ob = ''MappedPolyFit1D_q10_q_to_nu'' then Some ''SpEC_q10_non_spinning''
     else if obj_class_name ob = ''NRHybSur3dq8Fit'' then Some ''NRHybSur3dq8Fit''
     else if obj_class_name ob = ''NRHybSur2dq15Fit'' then Some ''NRHybSur2dq15Fit''
     else None)"
  by (simp add: reverse_lookup_def NODE_CLASSES_def)

lemma obj_class_name_of: "class_of ob = Some c \<Longrightarrow> obj_class_name ob = class_name c"
  by (cases ob) auto

lemma construct_class:
  "construct g cls args = Inr ob \<Longrightarrow> class_of ob = Some cls"
  by (cases cls; cases args) (auto simp: pySurrogateFit_init_def bind_exn_def split: sum.splits)

text \<open>
  Claim C2. The registry has five keys, pairwise distinct, bound to five pairwise distinct
  classes, and the reverse lookup of \<open>NodeFunction.__init__\<close> round-trips: for a class
  registered under a key, building a \<open>NodeFunction\<close> from an instance of that class
  succeeds and sets \<open>node_class\<close> to that key.
\<close>

theorem NODE_CLASSES_bijective_round_trip:
  "length NODE_CLASSES = 5 \<and> distinct (map fst NODE_CLASSES) \<and> distinct (map snd NODE_CLASSES)
   \<and> (\<forall>k c ob nm. map_of NODE_CLASSES k = Some c \<and> class_of ob = Some c \<longrightarrow>
         NodeFunction_init nm (Some ob)
           = Inr \<lparr>name = nm, node_function = Some ob, node_class = Some k\<rparr>)"
proof -
  have a: "length NODE_CLASSES = 5" by (simp add: NODE_CLASSES_def)
  have b: "distinct (map fst NODE_CLASSES)" by (simp add: NODE_CLASSES_def)
  have c: "distinct (map snd NODE_CLASSES)" by (simp add: NODE_CLASSES_def)
  have d: "NodeFunction_init nm (Some ob)
           = Inr \<lparr>name = nm, node_function = Some ob, node_class = Some k\<rparr>"
    if "map_of NODE_CLASSES k = Some c" "class_of ob = Some c" for k c and ob :: "'a node_obj" and nm
  proof -
    have n: "obj_class_name ob = class_name c" using that(2) by (rule obj_class_name_of)
    from that(1) have "(k, c) \<in> set NODE_CLASSES" by (rule map_of_SomeD)
    then have "reverse_lookup ob = Some k"
      unfolding reverse_lookup_registered n by (auto simp: NODE_CLASSES_def)
    then show ?thesis by (simp add: NodeFunction_init_def)
  qed
  from a b c d show ?thesis by blast
qed

theorem NODE_CLASSES_bijective_round_trip_witness:
  "map_of NODE_CLASSES ''SpEC_q10_non_spinning'' = Some MappedPolyFit1D_q10_q_to_nu
   \<and> class_of (MappedPolyFit1D_q10_q_to_nu_obj None None :: unit node_obj) = Some MappedPolyFit1D_q10_q_to_nu
   \<and> NodeFunction_init ''n'' (Some (MappedPolyFit1D_q10_q_to_nu_obj None None :: unit node_obj))
       = Inr \<lparr>name = ''n'', node_function = Some (MappedPolyFit1D_q10_q_to_nu_obj None None),
              node_class = Some ''SpEC_q10_non_spinning''\<rparr>"
  using NODE_CLASSES_bijective_round_trip [where ?'a = unit] by (simp add: NODE_CLASSES_def)

text \<open>
  Claim C3, as stated, against the code: the specification has the registered constructor
  invoked with the payload. \<open>h5_prepare_subs\<close> takes no payload and calls the
  constructor without arguments: for the key \<open>Polyfit1D\<close> it yields an instance whose
  function name and coefficients are \<open>None\<close>, where a constructor called with the
  payload \<open>(polyval_1d, [2, 1])\<close> yields an instance that holds them.
\<close>

theorem h5_prepare_subs_ignores_payload:
  "h5_prepare_subs example_getFitEvaluator
      \<lparr>name = ''n'', node_function = None, node_class = Some ''Polyfit1D''\<rparr>
    = Inr \<lparr>name = ''n'', node_function = Some (Polyfit1D_obj None None),
           node_class = Some ''Polyfit1D''\<rparr>
   \<and> reconstruct_with_payload example_getFitEvaluator
      \<lparr>name = ''n'', node_function = None, node_class = Some ''Polyfit1D''\<rparr>
      (PolyArgs (Some ''polyval_1d'') (Some [2, 1]))
    = Inr \<lparr>name = ''n'', node_function = Some (Polyfit1D_obj (Some ''polyval_1d'') (Some [2, 1])),
           node_class = Some ''Polyfit1D''\<rparr>
   \<and> h5_prepare_subs example_getFitEvaluator
      \<lparr>name = ''n'', node_function = None, node_class = Some ''Polyfit1D''\<rparr>
    \<noteq> reconstruct_with_payload example_getFitEvaluator
      \<lparr>name = ''n'', node_function = None, node_class = Some ''Polyfit1D''\<rparr>
      (PolyArgs (Some ''polyval_1d'') (Some [2, 1]))"
  by (simp add: h5_prepare_subs_def reconstruct_with_payload_def NODE_CLASSES_def
        dict_getitem_def bind_exn_def)

text \<open>
  Claim C3, amended. For a class key present in the registry (the five keys listed),
  \<open>h5_prepare_subs\<close> selects the class registered under that key and calls its
  constructor with no arguments, no payload being passed: the holder's
  \<open>node_function\<close> becomes a fresh instance of the registered class whose attributes
  are the defaults of the constructor, that is \<open>None\<close>, and for the two classes backed
  by a fit evaluator \<open>fitFunc\<close> is what \<open>getFitEvaluator\<close> returns for \<open>None\<close>;
  where \<open>getFitEvaluator\<close> raises, its error is the result.
\<close>

theorem h5_prepare_subs_constructs_without_arguments:
  "map fst NODE_CLASSES
     = [''Dummy'', ''Polyfit1D'', ''SpEC_q10_non_spinning'', ''NRHybSur3dq8Fit'',
        ''NRHybSur2dq15Fit'']
   \<and> (node_class self = Some ''Dummy'' \<longrightarrow>
        h5_prepare_subs g self
          = Inr (self\<lparr>node_function := Some (DummyNodeFunction_obj None)\<rparr>))
   \<and> (node_class self = Some ''Polyfit1D'' \<longrightarrow>
        h5_prepare_subs g self
          = Inr (self\<lparr>node_function := Some (Polyfit1D_obj None None)\<rparr>))
   \<and> (node_class self = Some ''SpEC_q10_non_spinning'' \<longrightarrow>
        h5_prepare_subs g self
          = Inr (self\<lparr>node_function := Some (MappedPolyFit1D_q10_q_to_nu_obj None None)\<rparr>))
   \<and> (node_class self = Some ''NRHybSur3dq8Fit'' \<longrightarrow>
        h5_prepare_subs g self
          = (case g None of
               Inl e \<Rightarrow> Inl e
             | Inr fitFunc \<Rightarrow>
                 Inr (self\<lparr>node_function := Some (NRHybSur3dq8Fit_obj None None fitFunc)\<rparr>)))
   \<and> (node_class self = Some ''NRHybSur2dq15Fit'' \<longrightarrow>
        h5_prepare_subs g self
          = (case g None of
               Inl e \<Rightarrow> Inl e
             | Inr fitFunc \<Rightarrow>
                 Inr (self\<lparr>node_function := Some (NRHybSur2dq15Fit_obj None None fitFunc)\<rparr>)))
   \<and> (\<forall>k cls. node_class self = Some k \<and> map_of NODE_CLASSES k = Some cls \<longrightarrow>
        h5_prepare_subs g self
          = (case construct g cls NoArgs of
               Inl e \<Rightarrow> Inl e
             | Inr ob \<Rightarrow> Inr (self\<lparr>node_function := Some ob\<rparr>))
        \<and> (\<forall>ob. construct g cls NoArgs = Inr ob \<longrightarrow> class_of ob = Some cls))"
proof -
  have keys: "map fst NODE_CLASSES
     = [''Dummy'', ''Polyfit1D'', ''SpEC_q10_non_spinning'', ''NRHybSur3dq8Fit'',
        ''NRHybSur2dq15Fit'']"
    by (simp add: NODE_CLASSES_def)
  have general: "h5_prepare_subs g self
          = (case construct g cls NoArgs of
               Inl e \<Rightarrow> Inl e
             | Inr ob \<Rightarrow> Inr (self\<lparr>node_function := Some ob\<rparr>))"
    if "node_class self = Some k" "map_of NODE_CLASSES k = Some cls" for k cls
    using that by (simp add: h5_prepare_subs_def dict_getitem_def bind_exn_def split: sum.splits)
  have l1: "map_of NODE_CLASSES ''Dummy'' = Some DummyNodeFunction"
    and l2: "map_of NODE_CLASSES ''Polyfit1D'' = Some Polyfit1D"
    and l3: "map_of NODE_CLASSES ''SpEC_q10_non_spinning'' = Some MappedPolyFit1D_q10_q_to_nu"
    and l4: "map_of NODE_CLASSES ''NRHybSur3dq8Fit'' = Some NRHybSur3dq8Fit"
    and l5: "map_of NODE_CLASSES ''NRHybSur2dq15Fit'' = Some NRHybSur2dq15Fit"
    by (simp_all add: NODE_CLASSES_def)
  have k1: "h5_prepare_subs g self
          = Inr (self\<lparr>node_function := Some (DummyNodeFunction_obj None)\<rparr>)"
    if "node_class self = Some ''Dummy''"
    using general [OF that l1] by simp
  have k2: "h5_prepare_subs g self
          = Inr (self\<lparr>node_function := Some (Polyfit1D_obj None None)\<rparr>)"
    if "node_class self = Some ''Polyfit1D''"
    using general [OF that l2] by simp
  have k3: "h5_prepare_subs g self
          = Inr (self\<lparr>node_function := Some (MappedPolyFit1D_q10_q_to_nu_obj None None)\<rparr>)"
    if "node_class self = Some ''SpEC_q10_non_spinning''"
    using general [OF that l3] by simp
  have k4: "h5_prepare_subs g self
          = (case g None of
               Inl e \<Rightarrow> Inl e
             | Inr fitFunc \<Rightarrow>
                 Inr (self\<lparr>node_function := Some (NRHybSur3dq8Fit_obj None None fitFunc)\<rparr>))"
    if "node_class self = Some ''NRHybSur3dq8Fit''"
    using general [OF that l4]
    by (simp add: pySurrogateFit_init_def bind_exn_def split: sum.splits)
  have k5: "h5_prepare_subs g self
          = (case g None of
               Inl e \<Rightarrow> Inl e
             | Inr fitFunc \<Rightarrow>
                 Inr (self\<lparr>node_function := Some (NRHybSur2dq15Fit_obj None None fitFunc)\<rparr>))"
    if "node_class self = Some ''NRHybSur2dq15Fit''"
    using general [OF that l5]
    by (simp add: pySurrogateFit_init_def bind_exn_def split: sum.splits)
  from keys k1 k2 k3 k4 k5 general construct_class show ?thesis by blast
qed

theorem h5_prepare_subs_constructs_without_arguments_witness:
  "node_class (\<lparr>name = ''n'', node_function = None, node_class = Some ''NRHybSur3dq8Fit''\<rparr> :: unit NodeFunction) = Some ''NRHybSur3dq8Fit''
   \<and> map_of NODE_CLASSES ''NRHybSur3dq8Fit'' = Some NRHybSur3dq8Fit
   \<and> example_getFitEvaluator None = Inr warning_evaluator
   \<and> h5_prepare_subs example_getFitEvaluator
        \<lparr>name = ''n'', node_function = None, node_class = Some ''NRHybSur3dq8Fit''\<rparr>
      = Inr \<lparr>name = ''n'', node_function = Some (NRHybSur3dq8Fit_obj None None warning_evaluator),
             node_class = Some ''NRHybSur3dq8Fit''\<rparr>"
proof -
  let ?self = "\<lparr>name = ''n'', node_function = None, node_class = Some ''NRHybSur3dq8Fit''\<rparr> :: unit NodeFunction"
  have h1: "node_class ?self = Some ''NRHybSur3dq8Fit''" by simp
  have h2: "map_of NODE_CLASSES ''NRHybSur3dq8Fit'' = Some NRHybSur3dq8Fit"
    by (simp add: NODE_CLASSES_def)
  have h3: "example_getFitEvaluator None = Inr warning_evaluator"
    by (simp add: example_getFitEvaluator_def)
  from h5_prepare_subs_constructs_without_arguments [of ?self example_getFitEvaluator] h1
  have "h5_prepare_subs example_getFitEvaluator ?self
          = (case example_getFitEvaluator None of
               Inl e \<Rightarrow> Inl e
             | Inr fitFunc \<Rightarrow>
                 Inr (?self\<lparr>node_function := Some (NRHybSur3dq8Fit_obj None None fitFunc)\<rparr>))"
    by blast
  with h1 h2 h3 show ?thesis by simp
qed

text \<open>
  Claim C4. A \<open>NodeFunction\<close> that holds no variant fails on every input: the call of
  \<open>None\<close> raises \<open>TypeError\<close>, which is the uninitialized-state error of this code;
  nothing is shown and the warning filters stay as they are.
\<close>

theorem NodeFunction_call_without_variant:
  "node_function self = None \<Longrightarrow> NodeFunction_call fd self x fs = (Inl TypeError, [], fs)"
  by (simp add: NodeFunction_call_def pure_run_def)

theorem NodeFunction_call_without_variant_witness:
  "node_function (\<lparr>name = ''n'', node_function = None, node_class = None\<rparr> :: unit NodeFunction) = None
   \<and> NodeFunction_init ''n'' None = Inr (\<lparr>name = ''n'', node_function = None, node_class = None\<rparr> :: unit NodeFunction)
   \<and> NodeFunction_call example_function_dict (\<lparr>name = ''n'', node_function = None, node_class = None\<rparr> :: unit NodeFunction) [Fin 1] [] = (Inl TypeError, [], [])"
  using NodeFunction_call_without_variant [of "\<lparr>name = ''n'', node_function = None, node_class = None\<rparr> :: unit NodeFunction" example_function_dict "[Fin 1]" "[]"]
  by (simp add: NodeFunction_init_def)

text \<open>
  Claim C6, as stated, against the code: line 200 compares the names of the classes, not
  the classes. An instance of a class defined elsewhere that is named \<open>Polyfit1D\<close> is
  of no registered type, yet the construction succeeds, under the key \<open>Polyfit1D\<close>.
\<close>

theorem NodeFunction_init_accepts_registered_name:
  "class_of (Foreign_obj ''Polyfit1D'' warning_evaluator :: unit node_obj) = None
   \<and> NodeFunction_init ''n'' (Some (Foreign_obj ''Polyfit1D'' warning_evaluator :: unit node_obj))
       = Inr \<lparr>name = ''n'', node_function = Some (Foreign_obj ''Polyfit1D'' warning_evaluator),
              node_class = Some ''Polyfit1D''\<rparr>"
  by (simp add: NodeFunction_init_def reverse_lookup_registered)

text \<open>
  Claim C6, amended. Building a \<open>NodeFunction\<close> from an object whose class name is not
  the name of a registered class (the plain \<open>pySurrogateFit\<close> is such an object) fails
  at construction time with \<open>Exception("node_function must be in NODE_CLASSES!")\<close>;
  an object whose class name is the name of a registered class is accepted, whatever
  its class.
\<close>

theorem NodeFunction_init_unregistered_class:
  "(obj_class_name ob \<notin> class_name ` snd ` set NODE_CLASSES \<longrightarrow>
     NodeFunction_init nm (Some ob) = Inl (Exception ''node_function must be in NODE_CLASSES!''))
   \<and> (obj_class_name ob \<in> class_name ` snd ` set NODE_CLASSES \<longrightarrow>
     (\<exists>k. NodeFunction_init nm (Some ob)
            = Inr \<lparr>name = nm, node_function = Some ob, node_class = Some k\<rparr>))"
  unfolding NodeFunction_init_def reverse_lookup_registered
  by (auto simp: NODE_CLASSES_def)

theorem NodeFunction_init_unregistered_class_witness:
  "obj_class_name (pySurrogateFit_obj None None warning_evaluator :: unit node_obj) \<notin> class_name ` snd ` set NODE_CLASSES
   \<and> NodeFunction_init ''n'' (Some (pySurrogateFit_obj None None warning_evaluator :: unit node_obj)) = Inl (Exception ''node_function must be in NODE_CLASSES!'')
   \<and> obj_class_name (Foreign_obj ''Polyfit1D'' warning_evaluator :: unit node_obj) \<in> class_name ` snd ` set NODE_CLASSES"
  using NodeFunction_init_unregistered_class [of "pySurrogateFit_obj None None warning_evaluator :: unit node_obj" "''n''"]
  by (simp add: NODE_CLASSES_def)

text \<open>
  Claim C7. Failed lookups raise a \<open>LookupError\<close> that reaches the caller:
  \<open>h5_prepare_subs\<close> with a stored class key that the registry lacks raises
  \<open>KeyError\<close> of that key, and \<open>Polyfit1D.__call__\<close> with a function name that the
  table of parametric functions lacks raises \<open>KeyError\<close> of that name, on every input.
\<close>

theorem failed_lookups_raise_KeyError:
  "(node_class self = Some k \<and> map_of NODE_CLASSES k = None \<longrightarrow>
      h5_prepare_subs g self = Inl (KeyError (Some k)))
   \<and> (function_dict n = None \<longrightarrow>
      Polyfit1D_call function_dict (Some n) coefs x fs = (Inl (KeyError (Some n)), [], fs))
   \<and> is_LookupError (KeyError (Some k))"
  by (simp add: h5_prepare_subs_def Polyfit1D_call_def dict_getitem_def bind_exn_def pure_run_def)

theorem failed_lookups_raise_KeyError_witness:
  "node_class (\<lparr>name = ''n'', node_function = None, node_class = Some ''pySurrogateFit''\<rparr> :: unit NodeFunction) = Some ''pySurrogateFit''
   \<and> map_of NODE_CLASSES ''pySurrogateFit'' = None
   \<and> h5_prepare_subs example_getFitEvaluator \<lparr>name = ''n'', node_function = None, node_class = Some ''pySurrogateFit''\<rparr> = Inl (KeyError (Some ''pySurrogateFit''))
   \<and> example_function_dict ''cubic'' = None
   \<and> Polyfit1D_call example_function_dict (Some ''cubic'') (Some [1]) [Fin 2] [] = (Inl (KeyError (Some ''cubic'')), [], [])"
  using failed_lookups_raise_KeyError [of "\<lparr>name = ''n'', node_function = None, node_class = Some ''pySurrogateFit''\<rparr> :: unit NodeFunction" "''pySurrogateFit''" example_getFitEvaluator example_function_dict "''cubic''" "Some [1]" "[Fin 2]" "[]"]
  by (simp add: NODE_CLASSES_def example_function_dict_def)

subsection \<open>Input vectors\<close>



lemma then_run_Raise: "then_run (run_fit (Raise e) fs) k = (Inl e, [], fs)"
  by (simp add: then_run_def)

lemma Polyfit1D_call_head:
  "Polyfit1D_call function_dict function_name coefs (x0 # extra) fs
     = Polyfit1D_call function_dict function_name coefs [x0] fs"
  by (simp add: Polyfit1D_call_def split: sum.splits)





















text \<open>
  Claim C10. \<open>Polyfit1D.__call__\<close> reads only the first element of its input: two
  non-empty inputs with the same first element give the same result, and an input with
  further elements gives the result of the input cut to its first element.
\<close>

theorem Polyfit1D_call_depends_on_first_element:
  "(x \<noteq> [] \<and> y \<noteq> [] \<and> hd x = hd y \<longrightarrow>
      Polyfit1D_call function_dict function_name coefs x fs
        = Polyfit1D_call function_dict function_name coefs y fs)
   \<and> Polyfit1D_call function_dict function_name coefs (x0 # extra) fs
        = Polyfit1D_call function_dict function_name coefs [x0] fs"
  by (cases x; cases y) (simp_all add: Polyfit1D_call_def split: sum.splits)

theorem Polyfit1D_call_depends_on_first_element_witness:
  "[Fin 3, Fin 5] \<noteq> [] \<and> [Fin 3, Fin 7, Fin 9] \<noteq> [] \<and> hd [Fin 3, Fin 5] = hd [Fin 3, Fin 7, Fin 9]
   \<and> Polyfit1D_call example_function_dict (Some ''polyval_1d'') (Some [2, 1]) [Fin 3, Fin 5] []
       = Polyfit1D_call example_function_dict (Some ''polyval_1d'') (Some [2, 1]) [Fin 3, Fin 7, Fin 9] []
   \<and> Polyfit1D_call example_function_dict (Some ''polyval_1d'') (Some [2, 1]) [Fin 3, Fin 5] [] = (Inr (Fin 7), [], [])"
  using Polyfit1D_call_depends_on_first_element [of "[Fin 3, Fin 5]" "[Fin 3, Fin 7, Fin 9]" example_function_dict "Some ''polyval_1d''" "Some [2, 1]" "[]" "Fin 3" "[Fin 5]"]
  by (simp add: Polyfit1D_call_def example_function_dict_def dict_getitem_def polyval_1d_def polyval_def)

subsection \<open>The scope of the warning filter\<close>




















end
